theory Spec2Isabelle
  imports Main "HOL-Library.Sublist"
begin

section \<open>Pinboard Opener: the event page\<close>

text \<open>
  A shallow embedding of \<^verbatim>\<open>src/eventPage.ts\<close>, the event page of a browser
  extension that caches a bookmark list, opens unread bookmarks as background tabs and
  marks them read.

  The page talks to three collaborators: \<^verbatim>\<open>chrome.storage.local\<close>, the remote
  bookmark API behind \<^verbatim>\<open>fetch\<close>, and the browser's badge, tabs and notifications.
  All three are made explicit. What the page can observe or change of the browser is one
  record, passed in and returned; what the remote API answers is a parameter of the
  function that asks. A promise is the value it settles to, or \<open>Pending\<close> when the
  code never settles it. Each workflow is run on its own, from start to end: the model
  has no interleaving of a timer tick with a click, and a write to storage takes effect
  where it is issued.
\<close>

subsection \<open>Data\<close>

text \<open>\<^verbatim>\<open>type Bookmark = { href: string; description: string; toread: string }\<close>\<close>

record Bookmark =
  href :: string
  description :: string
  toread :: string

text \<open>\<^verbatim>\<open>const TAB_COUNT = 10\<close>\<close>

definition TAB_COUNT :: nat where
  "TAB_COUNT = 10"

text \<open>
  The ways a promise of the page is rejected: \<^verbatim>\<open>chrome.runtime.lastError\<close> on a
  storage read, a \<^verbatim>\<open>fetch\<close> or \<^verbatim>\<open>response.json()\<close> that fails, a
  \<^verbatim>\<open>TypeError\<close> thrown by a property access on \<^verbatim>\<open>undefined\<close>, and the
  \<^verbatim>\<open>Error(JSON.stringify(responses))\<close> of a mark-read batch, which carries the
  result codes received. \<open>NoReason\<close> is a \<^verbatim>\<open>reject()\<close> with no argument.
\<close>

datatype error = StorageError | FetchError | TypeError | BatchError "string list" | NoReason

datatype 'a promise = Resolved 'a | Rejected error | Pending

text \<open>
  What one remote call yields: the parsed body, or a failure of the request or of the
  parse.
\<close>

datatype 'a reply = Failed | Json 'a

text \<open>
  The three endpoints the page calls. \<open>PostsAdd url description\<close> is the call
  \<^verbatim>\<open>posts/add?...&url=..&description=..&toread=no\<close>.
\<close>

datatype request = PostsUpdate | PostsAll | PostsAdd string string

datatype storage_write = SetPinboard "Bookmark list" | SetPinboardUpdated string

text \<open>
  The browser as the page sees it. The two storage keys are \<open>None\<close> while they have
  never been written (\<^verbatim>\<open>localData.pinboard\<close> is then \<^verbatim>\<open>undefined\<close>).
  \<open>lastError\<close> is \<^verbatim>\<open>chrome.runtime.lastError\<close> as a storage read's callback
  finds it. \<open>storageWrites\<close>, \<open>requests\<close>, \<open>tabs\<close> and \<open>notifications\<close>
  are logs, oldest first, of the calls to \<^verbatim>\<open>chrome.storage.local.set\<close>,
  \<^verbatim>\<open>fetch\<close>, \<^verbatim>\<open>chrome.tabs.create\<close> (the url; every tab is created with
  \<^verbatim>\<open>active: false\<close>) and \<^verbatim>\<open>chrome.notifications.create\<close> (the message).
\<close>

record browser =
  pinboard :: "Bookmark list option"
  pinboardUpdated :: "string option"
  lastError :: bool
  storageWrites :: "storage_write list"
  badgeText :: string
  badgeColor :: string
  tabs :: "string list"
  notifications :: "string list"
  requests :: "request list"

subsection \<open>Built-ins of the language\<close>

text \<open>
  \<^verbatim>\<open>String(n)\<close> and \<^verbatim>\<open>`${n}`\<close> on a length: the decimal digits, most
  significant first, with no leading zero.
\<close>

definition digit :: "nat \<Rightarrow> char" where
  "digit d = ''0123456789'' ! d"

fun String_nat :: "nat \<Rightarrow> string" where
  "String_nat n =
     (if n < 10 then [digit n] else String_nat (n div 10) @ [digit (n mod 10)])"

declare String_nat.simps [simp del]

text \<open>
  \<^verbatim>\<open>Array.prototype.findIndex\<close>: the index of the first element that satisfies the
  predicate, and \<open>-1\<close> when there is none.
\<close>

fun findIndexFrom :: "int \<Rightarrow> ('a \<Rightarrow> bool) \<Rightarrow> 'a list \<Rightarrow> int" where
  "findIndexFrom k P [] = - 1"
| "findIndexFrom k P (x # xs) = (if P x then k else findIndexFrom (k + 1) P xs)"

definition findIndex :: "('a \<Rightarrow> bool) \<Rightarrow> 'a list \<Rightarrow> int" where
  "findIndex P xs = findIndexFrom 0 P xs"

text \<open>
  Reading a digit string as a number, most significant digit first: what
  \<^verbatim>\<open>Number(text)\<close> gives on a string of decimal digits. The page does not call
  it; it says what a decimal string denotes.
\<close>

definition digit_value :: "char \<Rightarrow> nat" where
  "digit_value c = of_char c - 48"

definition decimal :: "string \<Rightarrow> nat" where
  "decimal cs = foldl (\<lambda>acc c. 10 * acc + digit_value c) 0 cs"

subsection \<open>Storage and badge\<close>

text \<open>
  \<^verbatim>\<open>getLocalBookmarks\<close>: rejects on \<^verbatim>\<open>lastError\<close> (the \<^verbatim>\<open>resolve\<close> that
  follows the \<^verbatim>\<open>reject\<close> has no effect), else resolves with whatever the key holds.
\<close>

definition getLocalBookmarks :: "browser \<Rightarrow> Bookmark list option promise" where
  "getLocalBookmarks s =
     (if lastError s then Rejected StorageError else Resolved (pinboard s))"

text \<open>\<^verbatim>\<open>bookmarks.filter(item => item.toread === "yes")\<close>\<close>

definition filterUnread :: "Bookmark list \<Rightarrow> Bookmark list" where
  "filterUnread bookmarks = filter (\<lambda>item. toread item = ''yes'') bookmarks"

text \<open>
  \<^verbatim>\<open>updateBadgeCount\<close>. \<^verbatim>\<open>filterUnread(bookmarks)\<close> calls
  \<^verbatim>\<open>bookmarks.filter\<close>, which throws a \<^verbatim>\<open>TypeError\<close> when \<^verbatim>\<open>bookmarks\<close>
  is \<^verbatim>\<open>undefined\<close>; the badge is then not touched.
\<close>

definition updateBadgeCount :: "browser \<Rightarrow> unit promise \<times> browser" where
  "updateBadgeCount s =
     (case getLocalBookmarks s of
        Resolved None \<Rightarrow> (Rejected TypeError, s)
      | Resolved (Some bookmarks) \<Rightarrow>
          (let count = length (filterUnread bookmarks) in
           (Resolved (),
            s\<lparr>badgeText := (if count > 0 then String_nat count else ''''),
              badgeColor := ''#000''\<rparr>))
      | Rejected e \<Rightarrow> (Rejected e, s)
      | Pending \<Rightarrow> (Pending, s))"

text \<open>
  \<^verbatim>\<open>setLocalBookmarks\<close>: writes the key; the callback of the write starts
  \<^verbatim>\<open>updateBadgeCount()\<close> without waiting for it and resolves.
\<close>

definition setLocalBookmarks :: "browser \<Rightarrow> Bookmark list \<Rightarrow> unit promise \<times> browser" where
  "setLocalBookmarks s bookmarks =
     (let s1 = s\<lparr>pinboard := Some bookmarks,
                  storageWrites := storageWrites s @ [SetPinboard bookmarks]\<rparr>
      in (Resolved (), snd (updateBadgeCount s1)))"

definition getOldUpdatedTime :: "browser \<Rightarrow> string option promise" where
  "getOldUpdatedTime s =
     (if lastError s then Rejected StorageError else Resolved (pinboardUpdated s))"

definition setOldUpdatedTime :: "browser \<Rightarrow> string \<Rightarrow> browser" where
  "setOldUpdatedTime s time =
     s\<lparr>pinboardUpdated := Some time,
       storageWrites := storageWrites s @ [SetPinboardUpdated time]\<rparr>"

text \<open>\<^verbatim>\<open>sendNotification\<close>\<close>

definition sendNotification :: "browser \<Rightarrow> string \<Rightarrow> browser" where
  "sendNotification s message = s\<lparr>notifications := notifications s @ [message]\<rparr>"

subsection \<open>Sync check and refetch\<close>

text \<open>
  \<^verbatim>\<open>getNewUpdatedTime\<close>: one request to \<^verbatim>\<open>posts/update\<close>; \<open>r\<close> is what the
  remote answers, the \<^verbatim>\<open>update_time\<close> of the body.
\<close>

definition getNewUpdatedTime :: "browser \<Rightarrow> string reply \<Rightarrow> string promise \<times> browser" where
  "getNewUpdatedTime s r =
     (case r of Failed \<Rightarrow> Rejected FetchError | Json update_time \<Rightarrow> Resolved update_time,
      s\<lparr>requests := requests s @ [PostsUpdate]\<rparr>)"

text \<open>
  \<^verbatim>\<open>shouldFetchNew\<close>. The stored time is \<^verbatim>\<open>undefined\<close> until the first write,
  and \<^verbatim>\<open>undefined !== newUpdated\<close> holds for every string.
\<close>

definition shouldFetchNew :: "browser \<Rightarrow> string reply \<Rightarrow> bool promise \<times> browser" where
  "shouldFetchNew s r =
     (case getOldUpdatedTime s of
        Resolved oldUpdated \<Rightarrow>
          (case getNewUpdatedTime s r of
             (Resolved newUpdated, s1) \<Rightarrow>
               if oldUpdated \<noteq> Some newUpdated
               then (Resolved True, setOldUpdatedTime s1 newUpdated)
               else (Resolved False, s1)
           | (Rejected e, s1) \<Rightarrow> (Rejected e, s1)
           | (Pending, s1) \<Rightarrow> (Pending, s1))
      | Rejected e \<Rightarrow> (Rejected e, s)
      | Pending \<Rightarrow> (Pending, s))"

text \<open>
  \<^verbatim>\<open>fetchNew\<close>: one request to \<^verbatim>\<open>posts/all\<close>. A failure reaches
  \<^verbatim>\<open>.catch\<close>, which rejects. On success the body is handed to
  \<^verbatim>\<open>setLocalBookmarks\<close>; the executor's \<^verbatim>\<open>resolve\<close> is called nowhere, so the
  promise that \<^verbatim>\<open>fetchNew\<close> returns stays pending.
\<close>

definition fetchNew :: "browser \<Rightarrow> Bookmark list reply \<Rightarrow> unit promise \<times> browser" where
  "fetchNew s r =
     (let s1 = s\<lparr>requests := requests s @ [PostsAll]\<rparr> in
      case r of
        Failed \<Rightarrow> (Rejected FetchError, s1)
      | Json data \<Rightarrow> (Pending, snd (setLocalBookmarks s1 data)))"

text \<open>\<^verbatim>\<open>updateData\<close>\<close>

definition updateData ::
  "browser \<Rightarrow> string reply \<Rightarrow> Bookmark list reply \<Rightarrow> unit promise \<times> browser" where
  "updateData s ru ra =
     (case shouldFetchNew s ru of
        (Resolved shouldFetch, s1) \<Rightarrow>
          if shouldFetch then fetchNew s1 ra else (Resolved (), s1)
      | (Rejected e, s1) \<Rightarrow> (Rejected e, s1)
      | (Pending, s1) \<Rightarrow> (Pending, s1))"

subsection \<open>Marking bookmarks read\<close>

text \<open>
  The callback of \<^verbatim>\<open>readBookmarks.map\<close> in \<^verbatim>\<open>markBookmarksRead\<close>, run over
  \<^verbatim>\<open>readBookmarks\<close> in order:
  \<^verbatim>\<open>
    const index = bookmarksCopy.findIndex(item => item.description === bookmark.description);
    bookmarksCopy[index].toread = "no";
  \<close>
  When no entry has the description, \<^verbatim>\<open>index\<close> is \<open>-1\<close>,
  \<^verbatim>\<open>bookmarksCopy[-1]\<close> is \<^verbatim>\<open>undefined\<close> and the assignment throws.
\<close>

fun markRead :: "Bookmark list \<Rightarrow> Bookmark list \<Rightarrow> error + Bookmark list" where
  "markRead bookmarksCopy [] = Inr bookmarksCopy"
| "markRead bookmarksCopy (bookmark # rest) =
     (let index = findIndex (\<lambda>item. description item = description bookmark) bookmarksCopy in
      if index < 0 then Inl TypeError
      else markRead
             (bookmarksCopy[nat index := (bookmarksCopy ! nat index)\<lparr>toread := ''no''\<rparr>])
             rest)"

text \<open>The \<^verbatim>\<open>result_code\<close> fields of the parsed bodies.\<close>

fun result_codes :: "string reply list \<Rightarrow> string list" where
  "result_codes [] = []"
| "result_codes (Failed # rs) = result_codes rs"
| "result_codes (Json code # rs) = code # result_codes rs"

text \<open>
  \<^verbatim>\<open>markBookmarksRead\<close>. \<open>replies i\<close> is what the remote answers to the call for
  \<^verbatim>\<open>readBookmarks[i]\<close>. All requests are issued before any answer is looked at.
  \<^item> A request or parse that fails rejects \<^verbatim>\<open>Promise.all\<close>; \<^verbatim>\<open>.catch\<close>
    rejects the promise and nothing else happens.
  \<^item> Otherwise, if a result code is not \<^verbatim>\<open>"done"\<close>, \<^verbatim>\<open>reject\<close> is called. The
    callback does not return there: it goes on to the local update.
  \<^item> \<^verbatim>\<open>JSON.parse(JSON.stringify(bookmarks))\<close> is a deep copy; as a value it is the
    list itself.
  \<^item> A \<^verbatim>\<open>TypeError\<close> in the marking leaves the callback before
    \<^verbatim>\<open>setLocalBookmarks\<close>; \<^verbatim>\<open>.catch\<close> rejects with it, unless the promise is
    rejected already.
  \<^item> Otherwise the copy is stored and \<^verbatim>\<open>resolve\<close> is called, which settles the
    promise unless it is rejected already.
\<close>

definition markBookmarksRead ::
  "browser \<Rightarrow> Bookmark list \<Rightarrow> Bookmark list \<Rightarrow> (nat \<Rightarrow> string reply) \<Rightarrow> unit promise \<times> browser"
where
  "markBookmarksRead s bookmarks readBookmarks replies =
     (let s1 = s\<lparr>requests := requests s @
                   map (\<lambda>bookmark. PostsAdd (href bookmark) (description bookmark)) readBookmarks\<rparr>;
          responses = map replies [0..<length readBookmarks]
      in if Failed \<in> set responses then (Rejected FetchError, s1)
         else
           let codes = result_codes responses;
               failing = (filter (\<lambda>code. code \<noteq> ''done'') codes \<noteq> [])
           in case markRead bookmarks readBookmarks of
                Inl e \<Rightarrow> (Rejected (if failing then BatchError codes else e), s1)
              | Inr bookmarksCopy \<Rightarrow>
                  (if failing then Rejected (BatchError codes) else Resolved (),
                   snd (setLocalBookmarks s1 bookmarksCopy)))"

subsection \<open>The click handler\<close>

text \<open>
  \<^verbatim>\<open>handleClick\<close>. \<open>ru\<close>, \<open>ra\<close> and \<open>replies\<close> are the remote's answers to
  the update-time request, to the full refetch (if one is made) and to the mark-read
  calls. An \<^verbatim>\<open>await\<close> on a promise that stays pending never returns, and one on a
  rejected promise throws out of the handler.
\<close>

definition handleClick ::
  "browser \<Rightarrow> string reply \<Rightarrow> Bookmark list reply \<Rightarrow> (nat \<Rightarrow> string reply) \<Rightarrow>
     unit promise \<times> browser"
where
  "handleClick s ru ra replies =
     (case updateData s ru ra of
        (Resolved u, s1) \<Rightarrow>
          (case getLocalBookmarks s1 of
             Resolved None \<Rightarrow> (Rejected TypeError, s1)
           | Resolved (Some bookmarks) \<Rightarrow>
               (let unreadBookmarks = filterUnread bookmarks in
                if length unreadBookmarks = 0
                then (Resolved (),
                      sendNotification s1 ''There aren't any unread bookmarks to open!'')
                else
                  let truncatedUnreadBookmarks = take TAB_COUNT unreadBookmarks;
                      s2 = sendNotification s1
                             (''Opening '' @ String_nat (length truncatedUnreadBookmarks) @
                              '' tabs from pinboard.'');
                      s3 = s2\<lparr>tabs := tabs s2 @ map href truncatedUnreadBookmarks\<rparr>
                  in markBookmarksRead s3 bookmarks truncatedUnreadBookmarks replies)
           | Rejected e \<Rightarrow> (Rejected e, s1)
           | Pending \<Rightarrow> (Pending, s1))
      | (Rejected e, s1) \<Rightarrow> (Rejected e, s1)
      | (Pending, s1) \<Rightarrow> (Pending, s1))"

subsection \<open>The earlier revision of the mark-read workflow\<close>

text \<open>
  \<^verbatim>\<open>markBookmarksRead\<close> as the second source file of the repository has it (an
  earlier revision of the page, whose \<^verbatim>\<open>updateBadgeCount\<close> and
  \<^verbatim>\<open>filterUnread\<close> are the ones above). It differs in three places:
  \<^item> \<^verbatim>\<open>.catch\<close> only logs, so after a failed request, or a \<^verbatim>\<open>TypeError\<close>
    in the marking, the promise is never settled;
  \<^item> on a result code that is not \<^verbatim>\<open>'done'\<close> it calls \<^verbatim>\<open>reject()\<close> and
    throws, and the local update is the \<^verbatim>\<open>else\<close> branch;
  \<^item> it writes the key itself, and resolves in the callback of the write.
\<close>

definition markBookmarksRead_part000 ::
  "browser \<Rightarrow> Bookmark list \<Rightarrow> Bookmark list \<Rightarrow> (nat \<Rightarrow> string reply) \<Rightarrow> unit promise \<times> browser"
where
  "markBookmarksRead_part000 s bookmarks readBookmarks replies =
     (let s1 = s\<lparr>requests := requests s @
                   map (\<lambda>bookmark. PostsAdd (href bookmark) (description bookmark)) readBookmarks\<rparr>;
          responses = map replies [0..<length readBookmarks]
      in if Failed \<in> set responses then (Pending, s1)
         else
           let failed = filter (\<lambda>code. code \<noteq> ''done'') (result_codes responses)
           in if length failed \<noteq> 0 then (Rejected NoReason, s1)
              else
                case markRead bookmarks readBookmarks of
                  Inl e \<Rightarrow> (Pending, s1)
                | Inr clonedBookmarks \<Rightarrow>
                    (Resolved (),
                     snd (updateBadgeCount
                            (s1\<lparr>pinboard := Some clonedBookmarks,
                                storageWrites :=
                                  storageWrites s1 @ [SetPinboard clonedBookmarks]\<rparr>))))"

subsection \<open>Marking bookmarks read, with the objects in a store\<close>

text \<open>
  Whether \<^verbatim>\<open>markBookmarksRead\<close> changes what its caller passed depends on which
  objects the assignment \<^verbatim>\<open>bookmarksCopy[index].toread = "no"\<close> reaches. In
  \<^verbatim>\<open>handleClick\<close> the elements of \<^verbatim>\<open>readBookmarks\<close> are the very objects
  of \<^verbatim>\<open>bookmarks\<close> (\<^verbatim>\<open>filter\<close> and \<^verbatim>\<open>slice\<close> copy references). So
  here the bookmark objects live in a store, a list indexed by address, and an array is
  the list of the addresses it holds. The function assigns to no array slot and calls no
  mutating array method (\<^verbatim>\<open>map\<close> and \<^verbatim>\<open>findIndex\<close> only read), so the
  arrays themselves need no cells. Storage keeps a serialised copy, hence values.
\<close>

type_synonym addr = nat

type_synonym heap = "Bookmark list"

text \<open>
  \<^verbatim>\<open>JSON.parse(JSON.stringify(bookmarks))\<close>: a new object for every element, and a
  new array of them.
\<close>

definition jsonClone :: "heap \<Rightarrow> addr list \<Rightarrow> heap \<times> addr list" where
  "jsonClone h array =
     (h @ map ((!) h) array, [length h..<length h + length array])"

fun markRead_heap :: "heap \<Rightarrow> addr list \<Rightarrow> addr list \<Rightarrow> error option \<times> heap" where
  "markRead_heap h bookmarksCopy [] = (None, h)"
| "markRead_heap h bookmarksCopy (bookmark # rest) =
     (let index = findIndex (\<lambda>item. description (h ! item) = description (h ! bookmark))
                    bookmarksCopy in
      if index < 0 then (Some TypeError, h)
      else
        let a = bookmarksCopy ! nat index in
        markRead_heap (h[a := (h ! a)\<lparr>toread := ''no''\<rparr>]) bookmarksCopy rest)"

definition markBookmarksRead_heap ::
  "heap \<Rightarrow> browser \<Rightarrow> addr list \<Rightarrow> addr list \<Rightarrow> (nat \<Rightarrow> string reply) \<Rightarrow>
     unit promise \<times> heap \<times> browser"
where
  "markBookmarksRead_heap h s bookmarks readBookmarks replies =
     (let s1 = s\<lparr>requests := requests s @
                   map (\<lambda>bookmark. PostsAdd (href (h ! bookmark)) (description (h ! bookmark)))
                     readBookmarks\<rparr>;
          responses = map replies [0..<length readBookmarks]
      in if Failed \<in> set responses then (Rejected FetchError, h, s1)
         else
           let codes = result_codes responses;
               failing = (filter (\<lambda>code. code \<noteq> ''done'') codes \<noteq> []);
               (h1, bookmarksCopy) = jsonClone h bookmarks
           in case markRead_heap h1 bookmarksCopy readBookmarks of
                (Some e, h2) \<Rightarrow> (Rejected (if failing then BatchError codes else e), h2, s1)
              | (None, h2) \<Rightarrow>
                  (if failing then Rejected (BatchError codes) else Resolved (),
                   h2,
                   snd (setLocalBookmarks s1 (map ((!) h2) bookmarksCopy))))"

subsection \<open>Concrete browsers and bookmark lists\<close>

text \<open>The browser right after the extension is installed: nothing stored, no badge.\<close>

definition fresh_browser :: browser where
  "fresh_browser =
     \<lparr>pinboard = None, pinboardUpdated = None, lastError = False, storageWrites = [],
      badgeText = [], badgeColor = [], tabs = [], notifications = [], requests = []\<rparr>"

text \<open>A browser that holds a bookmark list and the time of its last update.\<close>

definition stored_browser :: "Bookmark list \<Rightarrow> string \<Rightarrow> browser" where
  "stored_browser bookmarks time =
     fresh_browser\<lparr>pinboard := Some bookmarks, pinboardUpdated := Some time\<rparr>"

text \<open>
  Fifteen bookmarks with pairwise distinct descriptions; those numbered 4, 9 and 14 are
  read already, the other twelve are unread.
\<close>

definition example_bookmark :: "nat \<Rightarrow> Bookmark" where
  "example_bookmark i =
     \<lparr>href = ''https://example.org/'' @ String_nat i,
      description = ''page '' @ String_nat i,
      toread = (if i mod 5 = 4 then ''no'' else ''yes'')\<rparr>"

definition fifteen_bookmarks :: "Bookmark list" where
  "fifteen_bookmarks = map example_bookmark [0..<15]"




section \<open>Lemmas on the built-ins\<close>

subsection \<open>Decimal strings\<close>

lemma digit_value_digit: "d < 10 \<Longrightarrow> digit_value (digit d) = d"
proof -
  assume "d < 10"
  then have "d \<in> {0, 1, 2, 3, 4, 5, 6, 7, 8, 9}" by auto
  then show ?thesis by (auto simp: digit_def digit_value_def)
qed

lemma digit_in_digits: "d < 10 \<Longrightarrow> digit d \<in> set ''0123456789''"
  unfolding digit_def by (rule nth_mem) simp

lemma decimal_snoc: "decimal (cs @ [c]) = 10 * decimal cs + digit_value c"
  by (simp add: decimal_def)

lemma decimal_String_nat: "decimal (String_nat n) = n"
proof (induction n rule: String_nat.induct)
  case (1 n)
  show ?case
  proof (cases "n < 10")
    case True
    then show ?thesis
      by (subst String_nat.simps) (simp add: decimal_def digit_value_digit)
  next
    case False
    with 1 have "decimal (String_nat (n div 10)) = n div 10" by simp
    with False show ?thesis
      by (subst String_nat.simps) (simp add: decimal_snoc digit_value_digit)
  qed
qed

lemma String_nat_digits: "set (String_nat n) \<subseteq> set ''0123456789''"
proof (induction n rule: String_nat.induct)
  case (1 n)
  show ?case
  proof (cases "n < 10")
    case True
    then show ?thesis
      using digit_in_digits [of n] by (subst String_nat.simps) simp
  next
    case False
    with 1 have "set (String_nat (n div 10)) \<subseteq> set ''0123456789''" by simp
    with False show ?thesis
      using digit_in_digits [of "n mod 10"] by (subst String_nat.simps) simp
  qed
qed

lemma String_nat_nonempty: "String_nat n \<noteq> []"
  by (subst String_nat.simps) simp

lemma digit_zero_iff: "d < 10 \<Longrightarrow> digit d = CHR ''0'' \<longleftrightarrow> d = 0"
proof -
  assume "d < 10"
  then have "d \<in> {0, 1, 2, 3, 4, 5, 6, 7, 8, 9}" by auto
  then show ?thesis by (auto simp: digit_def)
qed

lemma String_nat_no_leading_zero: "0 < n \<Longrightarrow> hd (String_nat n) \<noteq> CHR ''0''"
proof (induction n rule: String_nat.induct)
  case (1 n)
  show ?case
  proof (cases "n < 10")
    case True
    with 1(2) show ?thesis
      by (subst String_nat.simps) (simp add: digit_zero_iff)
  next
    case False
    then have "0 < n div 10" by (simp add: div_greater_zero_iff)
    with 1(1) False have "hd (String_nat (n div 10)) \<noteq> CHR ''0''" by simp
    with False show ?thesis
      by (subst String_nat.simps) (simp add: String_nat_nonempty)
  qed
qed

subsection \<open>Filtering by position\<close>

lemma filter_by_position:
  "filter P xs = map ((!) xs) (filter (\<lambda>i. P (xs ! i)) [0..<length xs])"
proof -
  have "filter P xs = filter P (map ((!) xs) [0..<length xs])"
    by (simp add: map_nth)
  also have "\<dots> = map ((!) xs) (filter (P \<circ> (!) xs) [0..<length xs])"
    by (rule filter_map)
  finally show ?thesis by (simp add: comp_def)
qed

subsection \<open>\<open>findIndex\<close> and the marking loop\<close>

lemma findIndexFrom_none:
  "(\<forall>x\<in>set xs. \<not> P x) \<Longrightarrow> findIndexFrom k P xs = - 1"
  by (induction xs arbitrary: k) simp_all

lemma findIndexFrom_first:
  "\<exists>x\<in>set xs. P x \<Longrightarrow>
   \<exists>i<length xs. findIndexFrom k P xs = k + int i \<and> P (xs ! i) \<and> (\<forall>j<i. \<not> P (xs ! j))"
proof (induction xs arbitrary: k)
  case Nil
  then show ?case by simp
next
  case (Cons x xs)
  show ?case
  proof (cases "P x")
    case True
    then have "findIndexFrom k P (x # xs) = k + int 0 \<and> P ((x # xs) ! 0)
        \<and> (\<forall>j<0. \<not> P ((x # xs) ! j))"
      by simp
    then show ?thesis by blast
  next
    case False
    with Cons.prems have "\<exists>y\<in>set xs. P y" by auto
    from Cons.IH [OF this, of "k + 1"] obtain i where i: "i < length xs"
      "findIndexFrom (k + 1) P xs = k + 1 + int i" "P (xs ! i)" "\<forall>j<i. \<not> P (xs ! j)"
      by blast
    have "\<forall>j<Suc i. \<not> P ((x # xs) ! j)"
    proof (intro allI impI)
      fix j assume "j < Suc i"
      then show "\<not> P ((x # xs) ! j)"
        using False i(4) by (cases j) simp_all
    qed
    with False i have "Suc i < length (x # xs) \<and> findIndexFrom k P (x # xs) = k + int (Suc i)
        \<and> P ((x # xs) ! Suc i) \<and> (\<forall>j<Suc i. \<not> P ((x # xs) ! j))"
      by simp
    then show ?thesis by blast
  qed
qed

lemma findIndex_none: "(\<forall>x\<in>set xs. \<not> P x) \<Longrightarrow> findIndex P xs = - 1"
  unfolding findIndex_def by (rule findIndexFrom_none)

lemma findIndex_first:
  "\<exists>x\<in>set xs. P x \<Longrightarrow>
   \<exists>i<length xs. findIndex P xs = int i \<and> P (xs ! i) \<and> (\<forall>j<i. \<not> P (xs ! j))"
  unfolding findIndex_def using findIndexFrom_first [of xs P 0] by simp

lemma findIndex_found:
  assumes "\<not> findIndex P xs < 0"
  shows "nat (findIndex P xs) < length xs \<and> P (xs ! nat (findIndex P xs))"
proof (cases "\<exists>x\<in>set xs. P x")
  case True
  from findIndex_first [OF this] show ?thesis by auto
next
  case False
  then have "findIndex P xs = - 1" by (simp add: findIndex_none)
  with assms show ?thesis by simp
qed

lemma findIndexFrom_map: "findIndexFrom k P (map f xs) = findIndexFrom k (\<lambda>x. P (f x)) xs"
  by (induction xs arbitrary: k) simp_all

lemma findIndex_map: "findIndex P (map f xs) = findIndex (\<lambda>x. P (f x)) xs"
  unfolding findIndex_def by (rule findIndexFrom_map)

lemma findIndex_distinct:
  assumes "distinct (map f xs)" and "i < length xs"
  shows "findIndex (\<lambda>x. f x = f (xs ! i)) xs = int i"
proof -
  from assms(2) have "\<exists>x\<in>set xs. f x = f (xs ! i)" by auto
  from findIndex_first [OF this] obtain k where k: "k < length xs"
    "findIndex (\<lambda>x. f x = f (xs ! i)) xs = int k" "f (xs ! k) = f (xs ! i)"
    by blast
  from k(1,3) assms have "k = i"
    by (metis distinct_conv_nth length_map nth_map)
  with k(2) show ?thesis by simp
qed

lemma map_update_same:
  assumes "f y = f (xs ! i)"
  shows "map f (xs[i := y]) = map f xs"
proof (cases "i < length xs")
  case True
  with assms show ?thesis by (simp add: map_update list_update_same_conv)
next
  case False
  then have "length xs \<le> i" by simp
  then have "xs[i := y] = xs" by (rule list_update_beyond)
  then show ?thesis by simp
qed

lemma markRead_keeps_descriptions:
  "markRead bc rds = Inr r \<Longrightarrow> map description r = map description bc"
proof (induction rds arbitrary: bc)
  case Nil
  then show ?case by simp
next
  case (Cons b rest)
  let ?i = "findIndex (\<lambda>item. description item = description b) bc"
  let ?bc = "bc[nat ?i := (bc ! nat ?i)\<lparr>toread := ''no''\<rparr>]"
  from Cons.prems have nonneg: "\<not> ?i < 0" and rest: "markRead ?bc rest = Inr r"
    by (simp_all add: Let_def split: if_splits)
  from Cons.IH [OF rest] have "map description r = map description ?bc" .
  also have "\<dots> = map description bc" by (rule map_update_same) simp
  finally show ?case .
qed

lemma markRead_total:
  "description ` set rds \<subseteq> description ` set bc \<Longrightarrow> \<exists>r. markRead bc rds = Inr r"
proof (induction rds arbitrary: bc)
  case Nil
  then show ?case by simp
next
  case (Cons b rest)
  let ?i = "findIndex (\<lambda>item. description item = description b) bc"
  let ?bc = "bc[nat ?i := (bc ! nat ?i)\<lparr>toread := ''no''\<rparr>]"
  from Cons.prems have "\<exists>x\<in>set bc. description x = description b" by auto
  from findIndex_first [OF this] have nonneg: "\<not> ?i < 0" by auto
  have "map description ?bc = map description bc" by (rule map_update_same) simp
  then have "description ` set ?bc = description ` set bc"
    by (metis set_map)
  with Cons.prems have "description ` set rest \<subseteq> description ` set ?bc" by simp
  from Cons.IH [OF this] obtain r where "markRead ?bc rest = Inr r" ..
  with nonneg show ?case by (simp add: Let_def)
qed


section \<open>The unread filter\<close>

text \<open>
  C5. \<^verbatim>\<open>filterUnread\<close> returns the entries at exactly the positions whose
  \<^verbatim>\<open>toread\<close> is \<^verbatim>\<open>"yes"\<close>, in increasing order of position; so it is a
  sublist of its argument in the original relative order.
\<close>

theorem filterUnread_exact:
  "filterUnread bookmarks =
     map ((!) bookmarks) (filter (\<lambda>i. toread (bookmarks ! i) = ''yes'') [0..<length bookmarks])
   \<and> subseq (filterUnread bookmarks) bookmarks"
proof
  show "filterUnread bookmarks =
     map ((!) bookmarks) (filter (\<lambda>i. toread (bookmarks ! i) = ''yes'') [0..<length bookmarks])"
    unfolding filterUnread_def by (rule filter_by_position)
  show "subseq (filterUnread bookmarks) bookmarks"
    unfolding filterUnread_def by (rule subseq_filter_left)
qed

text \<open>
  C8. \<^verbatim>\<open>filterUnread\<close> is idempotent: filtering an already filtered list returns it
  as it is.
\<close>

theorem filterUnread_idempotent:
  "filterUnread (filterUnread l) = filterUnread l"
  by (simp add: filterUnread_def)

section \<open>The sync check\<close>

text \<open>
  C4. When the stored time equals the remote time (and the storage read succeeds),
  \<^verbatim>\<open>shouldFetchNew\<close> resolves with \<^verbatim>\<open>false\<close> and changes neither storage
  key: the stored bookmark list and the stored time are as before, and no write to
  storage is issued. The only thing it leaves behind is the request it made.
\<close>

theorem shouldFetchNew_equal_times:
  assumes "\<not> lastError s" and "pinboardUpdated s = Some remote_time"
  shows "shouldFetchNew s (Json remote_time) =
           (Resolved False, s\<lparr>requests := requests s @ [PostsUpdate]\<rparr>)
       \<and> pinboard (snd (shouldFetchNew s (Json remote_time))) = pinboard s
       \<and> pinboardUpdated (snd (shouldFetchNew s (Json remote_time))) = pinboardUpdated s
       \<and> storageWrites (snd (shouldFetchNew s (Json remote_time))) = storageWrites s"
  using assms
  by (simp add: shouldFetchNew_def getOldUpdatedTime_def getNewUpdatedTime_def)

theorem shouldFetchNew_equal_times_witness:
  "\<not> lastError (fresh_browser\<lparr>pinboardUpdated := Some ''2017-11-16T20:05:31Z''\<rparr>)
   \<and> pinboardUpdated (fresh_browser\<lparr>pinboardUpdated := Some ''2017-11-16T20:05:31Z''\<rparr>)
       = Some ''2017-11-16T20:05:31Z''
   \<and> fst (shouldFetchNew (fresh_browser\<lparr>pinboardUpdated := Some ''2017-11-16T20:05:31Z''\<rparr>)
            (Json ''2017-11-16T20:05:31Z'')) = Resolved False
   \<and> pinboardUpdated
         (snd (shouldFetchNew (fresh_browser\<lparr>pinboardUpdated := Some ''2017-11-16T20:05:31Z''\<rparr>)
                 (Json ''2017-11-16T20:05:31Z''))) = Some ''2017-11-16T20:05:31Z''
   \<and> storageWrites
         (snd (shouldFetchNew (fresh_browser\<lparr>pinboardUpdated := Some ''2017-11-16T20:05:31Z''\<rparr>)
                 (Json ''2017-11-16T20:05:31Z''))) = []"
  using shouldFetchNew_equal_times
    [of "fresh_browser\<lparr>pinboardUpdated := Some ''2017-11-16T20:05:31Z''\<rparr>"
        "''2017-11-16T20:05:31Z''"]
  by (simp add: fresh_browser_def)

text \<open>
  C3. When the stored time (possibly never written) differs from the remote time,
  \<^verbatim>\<open>shouldFetchNew\<close> resolves with \<^verbatim>\<open>true\<close> and issues exactly one write
  to storage, of the remote time under \<^verbatim>\<open>pinboardUpdated\<close>. The write is made
  before \<^verbatim>\<open>shouldFetchNew\<close> returns, so it stands whether or not a refetch
  follows; and after \<^verbatim>\<open>updateData\<close> the stored time is the remote one, written
  once, whatever the refetch \<open>ra\<close> yields.
\<close>

theorem shouldFetchNew_different_times:
  assumes "\<not> lastError s" and "pinboardUpdated s \<noteq> Some remote_time"
  shows "fst (shouldFetchNew s (Json remote_time)) = Resolved True
       \<and> pinboardUpdated (snd (shouldFetchNew s (Json remote_time))) = Some remote_time
       \<and> storageWrites (snd (shouldFetchNew s (Json remote_time))) =
           storageWrites s @ [SetPinboardUpdated remote_time]
       \<and> pinboardUpdated (snd (updateData s (Json remote_time) ra)) = Some remote_time
       \<and> storageWrites (snd (updateData s (Json remote_time) ra)) =
           storageWrites s @ SetPinboardUpdated remote_time #
             (case ra of Failed \<Rightarrow> [] | Json data \<Rightarrow> [SetPinboard data])"
  using assms
  by (simp add: updateData_def shouldFetchNew_def getOldUpdatedTime_def getNewUpdatedTime_def
      setOldUpdatedTime_def fetchNew_def setLocalBookmarks_def updateBadgeCount_def
      getLocalBookmarks_def Let_def split: reply.split)

theorem shouldFetchNew_different_times_witness:
  "\<not> lastError fresh_browser
   \<and> pinboardUpdated fresh_browser \<noteq> Some ''2017-11-16T20:05:31Z''
   \<and> fst (shouldFetchNew fresh_browser (Json ''2017-11-16T20:05:31Z'')) = Resolved True
   \<and> pinboardUpdated (snd (shouldFetchNew fresh_browser (Json ''2017-11-16T20:05:31Z'')))
       = Some ''2017-11-16T20:05:31Z''
   \<and> storageWrites (snd (shouldFetchNew fresh_browser (Json ''2017-11-16T20:05:31Z'')))
       = [SetPinboardUpdated ''2017-11-16T20:05:31Z'']
   \<and> pinboardUpdated (snd (updateData fresh_browser (Json ''2017-11-16T20:05:31Z'') Failed))
       = Some ''2017-11-16T20:05:31Z''
   \<and> pinboard (snd (updateData fresh_browser (Json ''2017-11-16T20:05:31Z'') Failed)) = None"
  using shouldFetchNew_different_times [of fresh_browser "''2017-11-16T20:05:31Z''" Failed]
  by (simp add: fresh_browser_def updateData_def shouldFetchNew_def getOldUpdatedTime_def
      getNewUpdatedTime_def setOldUpdatedTime_def fetchNew_def)

text \<open>
  In this revision a refetch that is needed never lets \<^verbatim>\<open>updateData\<close> resolve:
  \<^verbatim>\<open>fetchNew\<close> rejects on a failure and stays pending on success.
\<close>

lemma updateData_refetch_never_resolves:
  assumes "\<not> lastError s" and "pinboardUpdated s \<noteq> Some remote_time"
  shows "fst (updateData s (Json remote_time) ra) \<noteq> Resolved ()"
  using assms
  by (simp add: updateData_def shouldFetchNew_def getOldUpdatedTime_def getNewUpdatedTime_def
      fetchNew_def Let_def split: reply.split)

section \<open>The badge\<close>

text \<open>
  C7. When the stored bookmark list exists (and the storage read succeeds),
  \<^verbatim>\<open>updateBadgeCount\<close> sets the badge text to the empty string when no bookmark
  is unread, and otherwise to the decimal string of the unread count: a non-empty string
  of digits with no leading zero that reads back as the count. The background colour is
  set to \<^verbatim>\<open>"#000"\<close> in both cases.
\<close>

theorem updateBadgeCount_badge:
  assumes "\<not> lastError s" and "pinboard s = Some bookmarks"
  shows "fst (updateBadgeCount s) = Resolved ()
       \<and> badgeText (snd (updateBadgeCount s)) =
           (if length (filterUnread bookmarks) = 0 then []
            else String_nat (length (filterUnread bookmarks)))
       \<and> badgeColor (snd (updateBadgeCount s)) = ''#000''
       \<and> (0 < length (filterUnread bookmarks) \<longrightarrow>
            decimal (badgeText (snd (updateBadgeCount s))) = length (filterUnread bookmarks)
            \<and> badgeText (snd (updateBadgeCount s)) \<noteq> []
            \<and> set (badgeText (snd (updateBadgeCount s))) \<subseteq> set ''0123456789''
            \<and> hd (badgeText (snd (updateBadgeCount s))) \<noteq> CHR ''0'')"
proof -
  let ?count = "length (filterUnread bookmarks)"
  from assms have run: "updateBadgeCount s =
      (Resolved (), s\<lparr>badgeText := (if 0 < ?count then String_nat ?count else []),
                         badgeColor := ''#000''\<rparr>)"
    by (simp add: updateBadgeCount_def getLocalBookmarks_def Let_def)
  show ?thesis
    using String_nat_digits [of ?count] String_nat_no_leading_zero [of ?count]
    by (simp add: run decimal_String_nat String_nat_nonempty)
qed

theorem updateBadgeCount_badge_witness:
  "\<not> lastError (fresh_browser\<lparr>pinboard := Some fifteen_bookmarks\<rparr>)
   \<and> pinboard (fresh_browser\<lparr>pinboard := Some fifteen_bookmarks\<rparr>) = Some fifteen_bookmarks
   \<and> badgeText (snd (updateBadgeCount (fresh_browser\<lparr>pinboard := Some fifteen_bookmarks\<rparr>)))
       = ''12''
   \<and> badgeColor (snd (updateBadgeCount (fresh_browser\<lparr>pinboard := Some fifteen_bookmarks\<rparr>)))
       = ''#000''
   \<and> badgeText (snd (updateBadgeCount (fresh_browser\<lparr>pinboard := Some []\<rparr>))) = []"
proof -
  have n: "length (filterUnread fifteen_bookmarks) = 12"
    by code_simp
  have s: "String_nat 12 = ''12''"
    by code_simp
  have e: "filterUnread [] = []"
    by (simp add: filterUnread_def)
  show ?thesis
    using updateBadgeCount_badge [of "fresh_browser\<lparr>pinboard := Some fifteen_bookmarks\<rparr>"
        fifteen_bookmarks]
      updateBadgeCount_badge [of "fresh_browser\<lparr>pinboard := Some []\<rparr>" "[]"]
    by (simp add: n s e fresh_browser_def)
qed

section \<open>Lemmas on storage and result codes\<close>

text \<open>\<^verbatim>\<open>updateBadgeCount\<close> touches the badge only.\<close>

lemma updateBadgeCount_storage:
  "pinboard (snd (updateBadgeCount s)) = pinboard s"
  "pinboardUpdated (snd (updateBadgeCount s)) = pinboardUpdated s"
  "storageWrites (snd (updateBadgeCount s)) = storageWrites s"
  "lastError (snd (updateBadgeCount s)) = lastError s"
  by (simp_all add: updateBadgeCount_def getLocalBookmarks_def Let_def split: option.split)


lemma setLocalBookmarks_storage:
  "pinboard (snd (setLocalBookmarks s bookmarks)) = Some bookmarks"
  "pinboardUpdated (snd (setLocalBookmarks s bookmarks)) = pinboardUpdated s"
  "storageWrites (snd (setLocalBookmarks s bookmarks)) = storageWrites s @ [SetPinboard bookmarks]"
  "lastError (snd (setLocalBookmarks s bookmarks)) = lastError s"
  by (simp_all add: setLocalBookmarks_def Let_def updateBadgeCount_storage)



lemma result_codes_failing:
  "Json code \<in> set rs \<Longrightarrow> code \<noteq> ''done'' \<Longrightarrow>
   filter (\<lambda>code. code \<noteq> ''done'') (result_codes rs) \<noteq> []"
  by (induction rs rule: result_codes.induct) auto



section \<open>The mark-read batch\<close>



text \<open>A failing result code rejects the batch, in both revisions of the page.\<close>

lemma markBookmarksRead_rejects_on_failing_code:
  assumes "i < length readBookmarks" and "replies i = Json code" and "code \<noteq> ''done''"
  shows "\<exists>e. fst (markBookmarksRead s bookmarks readBookmarks replies) = Rejected e"
proof -
  let ?rs = "map replies [0..<length readBookmarks]"
  from assms(1,2) have "Json code \<in> set ?rs" by force
  from result_codes_failing [OF this assms(3)]
  show ?thesis
    by (simp add: markBookmarksRead_def Let_def split: sum.split)
qed

text \<open>
  The earlier revision leaves storage alone when a result code is failing: its local
  update is the \<^verbatim>\<open>else\<close> branch of the check.
\<close>

lemma markBookmarksRead_part000_failing_code:
  assumes "i < length readBookmarks" and "replies i = Json code" and "code \<noteq> ''done''"
  shows "fst (markBookmarksRead_part000 s bookmarks readBookmarks replies) \<noteq> Resolved ()
       \<and> pinboard (snd (markBookmarksRead_part000 s bookmarks readBookmarks replies)) = pinboard s
       \<and> storageWrites (snd (markBookmarksRead_part000 s bookmarks readBookmarks replies)) =
           storageWrites s"
proof -
  let ?rs = "map replies [0..<length readBookmarks]"
  from assms(1,2) have "Json code \<in> set ?rs" by force
  from result_codes_failing [OF this assms(3)]
  show ?thesis
    by (simp add: markBookmarksRead_part000_def Let_def)
qed

text \<open>
  In this revision the stored list is overwritten whenever no request fails and the
  marking goes through, whatever the result codes are.
\<close>

lemma markBookmarksRead_stores_whatever_the_codes:
  assumes "Failed \<notin> set (map replies [0..<length readBookmarks])"
    and "markRead bookmarks readBookmarks = Inr bookmarksCopy"
  shows "pinboard (snd (markBookmarksRead s bookmarks readBookmarks replies)) = Some bookmarksCopy"
  using assms
  by (simp add: markBookmarksRead_def Let_def setLocalBookmarks_storage)

text \<open>
  C1. The claim is that a failing result code rejects the batch and leaves the stored
  list as it was. The page rejects, and then writes the stored list all the same, since
  the callback does not return after \<^verbatim>\<open>reject\<close>. Here two unread bookmarks are
  marked; the remote answers \<^verbatim>\<open>"done"\<close> for the first and
  \<^verbatim>\<open>"something went wrong"\<close> for the second. The promise is rejected with the
  result codes, and the stored list has both bookmarks marked read.
\<close>

theorem markBookmarksRead_failing_code_writes_store:
  "fst (markBookmarksRead
          (fresh_browser\<lparr>pinboard := Some [example_bookmark 0, example_bookmark 1]\<rparr>)
          [example_bookmark 0, example_bookmark 1]
          [example_bookmark 0, example_bookmark 1]
          (\<lambda>i. if i = 0 then Json ''done'' else Json ''something went wrong''))
     = Rejected (BatchError [''done'', ''something went wrong''])
   \<and> pinboard (snd (markBookmarksRead
          (fresh_browser\<lparr>pinboard := Some [example_bookmark 0, example_bookmark 1]\<rparr>)
          [example_bookmark 0, example_bookmark 1]
          [example_bookmark 0, example_bookmark 1]
          (\<lambda>i. if i = 0 then Json ''done'' else Json ''something went wrong'')))
     = Some [(example_bookmark 0)\<lparr>toread := ''no''\<rparr>, (example_bookmark 1)\<lparr>toread := ''no''\<rparr>]
   \<and> toread (example_bookmark 0) = ''yes'' \<and> toread (example_bookmark 1) = ''yes''"
  by code_simp





section \<open>The click handler\<close>








section \<open>The stored list as a precondition\<close>

lemma markBookmarksRead_no_TypeError:
  assumes "description ` set readBookmarks \<subseteq> description ` set bookmarks"
  shows "fst (markBookmarksRead s bookmarks readBookmarks replies) \<noteq> Rejected TypeError"
proof -
  from markRead_total [OF assms] obtain r where "markRead bookmarks readBookmarks = Inr r" ..
  then show ?thesis by (simp add: markBookmarksRead_def Let_def)
qed

lemma updateData_resolved:
  assumes "fst (updateData s ru ra) = Resolved u"
  shows "snd (updateData s ru ra) = s\<lparr>requests := requests s @ [PostsUpdate]\<rparr>"
  using assms
  by (auto simp: updateData_def shouldFetchNew_def getOldUpdatedTime_def getNewUpdatedTime_def
      fetchNew_def Let_def split: if_splits reply.splits)

lemma updateData_no_TypeError: "fst (updateData s ru ra) \<noteq> Rejected TypeError"
  by (auto simp: updateData_def shouldFetchNew_def getOldUpdatedTime_def getNewUpdatedTime_def
      fetchNew_def Let_def split: if_splits reply.splits)

lemma handleClick_no_TypeError:
  assumes "\<not> lastError s" and "pinboard s = Some bookmarks"
  shows "fst (handleClick s ru ra replies) \<noteq> Rejected TypeError"
proof (cases "fst (updateData s ru ra)")
  case (Resolved u)
  let ?s1 = "s\<lparr>requests := requests s @ [PostsUpdate]\<rparr>"
  from updateData_resolved [OF Resolved] Resolved
  have upd: "updateData s ru ra = (Resolved u, ?s1)"
    by (simp add: prod_eq_iff)
  have sub: "description ` set (take TAB_COUNT (filterUnread bookmarks)) \<subseteq> description ` set bookmarks"
    by (auto simp: filterUnread_def dest: in_set_takeD)
  show ?thesis
    using assms markBookmarksRead_no_TypeError [OF sub]
    by (simp add: handleClick_def upd getLocalBookmarks_def Let_def)
next
  case (Rejected e)
  with updateData_no_TypeError [of s ru ra] have "e \<noteq> TypeError" by auto
  with Rejected show ?thesis
    by (cases "updateData s ru ra") (simp add: handleClick_def)
next
  case Pending
  then show ?thesis
    by (cases "updateData s ru ra") (simp add: handleClick_def)
qed

text \<open>
  C9. While the \<^verbatim>\<open>pinboard\<close> key has never been written,
  \<^verbatim>\<open>getLocalBookmarks\<close> resolves with \<^verbatim>\<open>undefined\<close>, not with an empty
  list; \<^verbatim>\<open>updateBadgeCount\<close> then faults with a \<^verbatim>\<open>TypeError\<close> in the filter
  step and leaves the browser as it was, and so does \<^verbatim>\<open>handleClick\<close> whenever it
  gets to the filter step (the stored time equals the remote one), having made only the
  update-time request. When the stored list exists, \<^verbatim>\<open>updateBadgeCount\<close>
  resolves and \<^verbatim>\<open>handleClick\<close> never ends in a \<^verbatim>\<open>TypeError\<close>, whatever the
  remote answers.
\<close>

theorem stored_list_required:
  "(\<not> lastError s \<and> pinboard s = None \<longrightarrow>
      getLocalBookmarks s = Resolved None
      \<and> updateBadgeCount s = (Rejected TypeError, s)
      \<and> (pinboardUpdated s = Some remote_time \<longrightarrow>
           handleClick s (Json remote_time) ra replies =
             (Rejected TypeError, s\<lparr>requests := requests s @ [PostsUpdate]\<rparr>)))
   \<and> (\<not> lastError s \<and> pinboard s = Some bookmarks \<longrightarrow>
      fst (updateBadgeCount s) = Resolved ()
      \<and> fst (handleClick s ru ra replies) \<noteq> Rejected TypeError)"
proof (intro conjI impI)
  assume a: "\<not> lastError s \<and> pinboard s = None"
  then show "getLocalBookmarks s = Resolved None"
    by (simp add: getLocalBookmarks_def)
  from a show "updateBadgeCount s = (Rejected TypeError, s)"
    by (simp add: updateBadgeCount_def getLocalBookmarks_def)
  assume "pinboardUpdated s = Some remote_time"
  with a show "handleClick s (Json remote_time) ra replies =
      (Rejected TypeError, s\<lparr>requests := requests s @ [PostsUpdate]\<rparr>)"
    by (simp add: handleClick_def updateData_def shouldFetchNew_def getOldUpdatedTime_def
        getNewUpdatedTime_def getLocalBookmarks_def)
next
  assume b: "\<not> lastError s \<and> pinboard s = Some bookmarks"
  then show "fst (updateBadgeCount s) = Resolved ()"
    by (simp add: updateBadgeCount_def getLocalBookmarks_def Let_def)
  from b show "fst (handleClick s ru ra replies) \<noteq> Rejected TypeError"
    by (simp add: handleClick_no_TypeError)
qed

theorem stored_list_required_witness:
  "\<not> lastError fresh_browser \<and> pinboard fresh_browser = None
   \<and> getLocalBookmarks fresh_browser = Resolved None
   \<and> updateBadgeCount fresh_browser = (Rejected TypeError, fresh_browser)
   \<and> pinboard (snd (updateData fresh_browser (Json ''2017-11-16T20:05:31Z'') Failed)) = None
   \<and> fst (handleClick (snd (updateData fresh_browser (Json ''2017-11-16T20:05:31Z'') Failed))
            (Json ''2017-11-16T20:05:31Z'') Failed (\<lambda>i. Json ''done'')) = Rejected TypeError
   \<and> tabs (snd (handleClick (snd (updateData fresh_browser (Json ''2017-11-16T20:05:31Z'') Failed))
            (Json ''2017-11-16T20:05:31Z'') Failed (\<lambda>i. Json ''done''))) = []
   \<and> pinboard (stored_browser fifteen_bookmarks ''2017-11-16T20:05:31Z'') = Some fifteen_bookmarks
   \<and> fst (updateBadgeCount (stored_browser fifteen_bookmarks ''2017-11-16T20:05:31Z'')) = Resolved ()
   \<and> fst (handleClick (stored_browser fifteen_bookmarks ''2017-11-16T20:05:31Z'')
            (Json ''2017-11-16T20:05:31Z'') Failed (\<lambda>i. Json ''done'')) \<noteq> Rejected TypeError"
proof -
  let ?t = "''2017-11-16T20:05:31Z''"
  let ?s1 = "snd (updateData fresh_browser (Json ?t) Failed)"
  let ?s2 = "stored_browser fifteen_bookmarks ?t"
  have s1: "?s1 = fresh_browser\<lparr>pinboardUpdated := Some ?t,
      storageWrites := [SetPinboardUpdated ?t], requests := [PostsUpdate, PostsAll]\<rparr>"
    by (simp add: updateData_def shouldFetchNew_def getOldUpdatedTime_def getNewUpdatedTime_def
        setOldUpdatedTime_def fetchNew_def fresh_browser_def)
  have f: "\<not> lastError fresh_browser \<and> pinboard fresh_browser = None"
    by (simp add: fresh_browser_def)
  have a: "\<not> lastError ?s1 \<and> pinboard ?s1 = None" "pinboardUpdated ?s1 = Some ?t" "tabs ?s1 = []"
    unfolding s1 by (simp_all add: fresh_browser_def)
  have b: "\<not> lastError ?s2 \<and> pinboard ?s2 = Some fifteen_bookmarks"
    by (simp add: stored_browser_def fresh_browser_def)
  from stored_list_required [where s = fresh_browser] f
  have 1: "getLocalBookmarks fresh_browser = Resolved None
      \<and> updateBadgeCount fresh_browser = (Rejected TypeError, fresh_browser)"
    by blast
  from stored_list_required [where s = ?s1 and remote_time = ?t and ra = Failed
      and replies = "\<lambda>i. Json ''done''"] a(1,2)
  have "handleClick ?s1 (Json ?t) Failed (\<lambda>i. Json ''done'') =
      (Rejected TypeError, ?s1\<lparr>requests := requests ?s1 @ [PostsUpdate]\<rparr>)"
    by blast
  with a(3) have 2: "fst (handleClick ?s1 (Json ?t) Failed (\<lambda>i. Json ''done'')) = Rejected TypeError
      \<and> tabs (snd (handleClick ?s1 (Json ?t) Failed (\<lambda>i. Json ''done''))) = []"
    by simp
  from stored_list_required [where s = ?s2 and bookmarks = fifteen_bookmarks and ru = "Json ?t"
      and ra = Failed and replies = "\<lambda>i. Json ''done''"] b
  have 3: "fst (updateBadgeCount ?s2) = Resolved ()
      \<and> fst (handleClick ?s2 (Json ?t) Failed (\<lambda>i. Json ''done'')) \<noteq> Rejected TypeError"
    by blast
  from f a(1) b 1 2 3 show ?thesis by (simp only: simp_thms)
qed

section \<open>The arguments of the mark-read batch are not mutated\<close>

lemma markRead_heap_frame:
  assumes "\<forall>a\<in>set bookmarksCopy. n \<le> a"
  shows "take n (snd (markRead_heap h bookmarksCopy readBookmarks)) = take n h"
proof (induction readBookmarks arbitrary: h)
  case Nil
  show ?case by simp
next
  case (Cons bookmark rest)
  let ?i = "findIndex (\<lambda>item. description (h ! item) = description (h ! bookmark)) bookmarksCopy"
  show ?case
  proof (cases "?i < 0")
    case True
    then show ?thesis by simp
  next
    case False
    let ?a = "bookmarksCopy ! nat ?i"
    from findIndex_found [OF False] have "?a \<in> set bookmarksCopy" by simp
    with assms have "n \<le> ?a" by blast
    then have "take n (h[?a := (h ! ?a)\<lparr>toread := ''no''\<rparr>]) = take n h" by simp
    with False Cons.IH [of "h[?a := (h ! ?a)\<lparr>toread := ''no''\<rparr>]"] show ?thesis
      by (simp add: Let_def)
  qed
qed

lemma jsonClone_fresh:
  "fst (jsonClone h array) = h @ map ((!) h) array"
  "\<forall>a\<in>set (snd (jsonClone h array)). length h \<le> a"
  by (simp_all add: jsonClone_def)

text \<open>
  C10. \<^verbatim>\<open>markBookmarksRead\<close> works on a deep clone: every object that exists when
  it is called is the same after the call, whether the promise resolves or rejects. In
  particular the objects of \<^verbatim>\<open>bookmarks\<close> and of \<^verbatim>\<open>readBookmarks\<close> are
  unchanged, also when the two arrays share them.
\<close>

theorem markBookmarksRead_heap_frame:
  "take (length h) (fst (snd (markBookmarksRead_heap h s bookmarks readBookmarks replies))) = h
   \<and> ((\<forall>a\<in>set bookmarks \<union> set readBookmarks. a < length h) \<longrightarrow>
        map ((!) (fst (snd (markBookmarksRead_heap h s bookmarks readBookmarks replies)))) bookmarks
          = map ((!) h) bookmarks
        \<and> map ((!) (fst (snd (markBookmarksRead_heap h s bookmarks readBookmarks replies))))
            readBookmarks = map ((!) h) readBookmarks)"
proof -
  let ?h' = "fst (snd (markBookmarksRead_heap h s bookmarks readBookmarks replies))"
  let ?h1 = "fst (jsonClone h bookmarks)" and ?copy = "snd (jsonClone h bookmarks)"
  have "?h' = h \<or> ?h' = snd (markRead_heap ?h1 ?copy readBookmarks)"
    by (simp add: markBookmarksRead_heap_def Let_def split_beta split: prod.split option.split)
  moreover have "take (length h) (snd (markRead_heap ?h1 ?copy readBookmarks)) = take (length h) ?h1"
    by (rule markRead_heap_frame) (rule jsonClone_fresh)
  ultimately have frame: "take (length h) ?h' = h"
    by (auto simp: jsonClone_fresh)
  have same: "?h' ! a = h ! a" if "a < length h" for a
  proof -
    from that have "?h' ! a = take (length h) ?h' ! a" by simp
    with frame show ?thesis by simp
  qed
  have maps: "map ((!) ?h') array = map ((!) h) array" if "\<forall>a\<in>set array. a < length h" for array
    using that by (simp add: same)
  have "map ((!) ?h') bookmarks = map ((!) h) bookmarks
      \<and> map ((!) ?h') readBookmarks = map ((!) h) readBookmarks"
    if "\<forall>a\<in>set bookmarks \<union> set readBookmarks. a < length h"
    using that maps [of bookmarks] maps [of readBookmarks] by blast
  with frame show ?thesis by blast
qed

theorem markBookmarksRead_heap_frame_witness:
  "fst (markBookmarksRead_heap [example_bookmark 0, example_bookmark 1, example_bookmark 4]
          fresh_browser [0, 1, 2] [0, 1] (\<lambda>i. Json ''done'')) = Resolved ()
   \<and> fst (snd (markBookmarksRead_heap [example_bookmark 0, example_bookmark 1, example_bookmark 4]
          fresh_browser [0, 1, 2] [0, 1] (\<lambda>i. Json ''done'')))
       = [example_bookmark 0, example_bookmark 1, example_bookmark 4,
          (example_bookmark 0)\<lparr>toread := ''no''\<rparr>, (example_bookmark 1)\<lparr>toread := ''no''\<rparr>,
          example_bookmark 4]
   \<and> map ((!) (fst (snd (markBookmarksRead_heap
          [example_bookmark 0, example_bookmark 1, example_bookmark 4]
          fresh_browser [0, 1, 2] [0, 1] (\<lambda>i. Json ''done''))))) [0, 1, 2]
       = [example_bookmark 0, example_bookmark 1, example_bookmark 4]
   \<and> map ((!) (fst (snd (markBookmarksRead_heap
          [example_bookmark 0, example_bookmark 1, example_bookmark 4]
          fresh_browser [0, 1, 2] [0, 1] (\<lambda>i. Json ''done''))))) [0, 1]
       = [example_bookmark 0, example_bookmark 1]"
proof -
  let ?h = "[example_bookmark 0, example_bookmark 1, example_bookmark 4]"
  let ?run = "markBookmarksRead_heap ?h fresh_browser [0, 1, 2] [0, 1] (\<lambda>i. Json ''done'')"
  have live: "\<forall>a\<in>set [0, 1, 2] \<union> set [0, 1]. a < length ?h" by simp
  have r: "fst ?run = Resolved ()" by code_simp
  have h': "fst (snd ?run) = ?h @ [(example_bookmark 0)\<lparr>toread := ''no''\<rparr>,
      (example_bookmark 1)\<lparr>toread := ''no''\<rparr>, example_bookmark 4]"
    by code_simp
  from markBookmarksRead_heap_frame [of ?h fresh_browser "[0, 1, 2]" "[0, 1]" "\<lambda>i. Json ''done''"]
    live
  have "map ((!) (fst (snd ?run))) [0, 1, 2] = map ((!) ?h) [0, 1, 2]
      \<and> map ((!) (fst (snd ?run))) [0, 1] = map ((!) ?h) [0, 1]"
    by blast
  then have "map ((!) (fst (snd ?run))) [0, 1, 2] = ?h
      \<and> map ((!) (fst (snd ?run))) [0, 1] = [example_bookmark 0, example_bookmark 1]"
    by simp
  with r h' show ?thesis by simp
qed

text \<open>
  On live references the store model does what the value model does on the objects the
  references point to: the same promise and the same browser.
\<close>

lemma markRead_heap_refines:
  assumes "distinct bookmarksCopy"
    and "\<forall>a\<in>set bookmarksCopy. n \<le> a \<and> a < length h"
    and "\<forall>r\<in>set readBookmarks. r < n"
  shows "markRead (map ((!) h) bookmarksCopy) (map ((!) h) readBookmarks) =
     (case markRead_heap h bookmarksCopy readBookmarks of
        (Some e, h') \<Rightarrow> Inl e
      | (None, h') \<Rightarrow> Inr (map ((!) h') bookmarksCopy))"
  using assms(2,3)
proof (induction readBookmarks arbitrary: h)
  case Nil
  show ?case by simp
next
  case (Cons bookmark rest)
  let ?i = "findIndex (\<lambda>item. description (h ! item) = description (h ! bookmark)) bookmarksCopy"
  let ?bc = "map ((!) h) bookmarksCopy"
  have idx: "findIndex (\<lambda>item. description item = description (h ! bookmark)) ?bc = ?i"
    by (rule findIndex_map)
  show ?case
  proof (cases "?i < 0")
    case True
    with idx show ?thesis by simp
  next
    case False
    let ?a = "bookmarksCopy ! nat ?i"
    let ?h = "h[?a := (h ! ?a)\<lparr>toread := ''no''\<rparr>]"
    from findIndex_found [OF False] have i: "nat ?i < length bookmarksCopy" by simp
    then have mem: "?a \<in> set bookmarksCopy" by simp
    with Cons.prems(1) have a: "n \<le> ?a" "?a < length h" by blast+
    have copy: "map ((!) ?h) bookmarksCopy = ?bc[nat ?i := (?bc ! nat ?i)\<lparr>toread := ''no''\<rparr>]"
    proof (rule nth_equalityI)
      show "length (map ((!) ?h) bookmarksCopy) =
          length (?bc[nat ?i := (?bc ! nat ?i)\<lparr>toread := ''no''\<rparr>])"
        by simp
    next
      fix j assume "j < length (map ((!) ?h) bookmarksCopy)"
      then have j: "j < length bookmarksCopy" by simp
      show "map ((!) ?h) bookmarksCopy ! j =
          ?bc[nat ?i := (?bc ! nat ?i)\<lparr>toread := ''no''\<rparr>] ! j"
      proof (cases "j = nat ?i")
        case True
        with i a(2) show ?thesis by simp
      next
        case False
        with assms(1) i j have "bookmarksCopy ! j \<noteq> ?a"
          by (simp add: nth_eq_iff_index_eq)
        with False i j show ?thesis by simp
      qed
    qed
    have reads: "map ((!) ?h) rest = map ((!) h) rest"
    proof (rule map_cong [OF refl])
      fix r assume "r \<in> set rest"
      with Cons.prems(2) have "r < n" by simp
      with a(1) show "?h ! r = h ! r" by simp
    qed
    from Cons.prems(1) have p1: "\<forall>a\<in>set bookmarksCopy. n \<le> a \<and> a < length ?h" by simp
    from Cons.prems(2) have p2: "\<forall>r\<in>set rest. r < n" by simp
    have "markRead ?bc (map ((!) h) (bookmark # rest)) =
        markRead (?bc[nat ?i := (?bc ! nat ?i)\<lparr>toread := ''no''\<rparr>]) (map ((!) h) rest)"
      using False idx by (simp add: Let_def)
    also have "\<dots> = markRead (map ((!) ?h) bookmarksCopy) (map ((!) ?h) rest)"
      by (simp only: copy reads)
    also have "\<dots> = (case markRead_heap ?h bookmarksCopy rest of
        (Some e, h') \<Rightarrow> Inl e | (None, h') \<Rightarrow> Inr (map ((!) h') bookmarksCopy))"
      by (rule Cons.IH [OF p1 p2])
    also have "markRead_heap ?h bookmarksCopy rest = markRead_heap h bookmarksCopy (bookmark # rest)"
      using False by (simp add: Let_def)
    finally show ?thesis .
  qed
qed

lemma jsonClone_copies:
  assumes "\<forall>a\<in>set array. a < length h"
  shows "map ((!) (fst (jsonClone h array))) (snd (jsonClone h array)) = map ((!) h) array"
proof (rule nth_equalityI)
  show "length (map ((!) (fst (jsonClone h array))) (snd (jsonClone h array))) =
      length (map ((!) h) array)"
    by (simp add: jsonClone_def)
next
  fix j assume "j < length (map ((!) (fst (jsonClone h array))) (snd (jsonClone h array)))"
  then have "j < length array" by (simp add: jsonClone_def)
  then show "map ((!) (fst (jsonClone h array))) (snd (jsonClone h array)) ! j =
      map ((!) h) array ! j"
    by (simp add: jsonClone_def nth_append)
qed

lemma markBookmarksRead_heap_refines:
  assumes "\<forall>a\<in>set bookmarks \<union> set readBookmarks. a < length h"
  shows "fst (markBookmarksRead_heap h s bookmarks readBookmarks replies) =
           fst (markBookmarksRead s (map ((!) h) bookmarks) (map ((!) h) readBookmarks) replies)
       \<and> snd (snd (markBookmarksRead_heap h s bookmarks readBookmarks replies)) =
           snd (markBookmarksRead s (map ((!) h) bookmarks) (map ((!) h) readBookmarks) replies)"
proof -
  let ?h1 = "fst (jsonClone h bookmarks)" and ?copy = "snd (jsonClone h bookmarks)"
  have d: "distinct ?copy" by (simp add: jsonClone_def)
  have r: "\<forall>a\<in>set ?copy. length h \<le> a \<and> a < length ?h1" by (simp add: jsonClone_def)
  from assms have live: "\<forall>r\<in>set readBookmarks. r < length h" by blast
  from assms have "\<forall>a\<in>set bookmarks. a < length h" by blast
  then have c: "map ((!) ?h1) ?copy = map ((!) h) bookmarks" by (rule jsonClone_copies)
  have "map ((!) ?h1) readBookmarks = map ((!) h) readBookmarks"
    using live by (simp add: jsonClone_def nth_append)
  with markRead_heap_refines [OF d r live] c
  have m: "markRead (map ((!) h) bookmarks) (map ((!) h) readBookmarks) =
      (case markRead_heap ?h1 ?copy readBookmarks of
         (Some e, h') \<Rightarrow> Inl e | (None, h') \<Rightarrow> Inr (map ((!) h') ?copy))"
    by simp
  show ?thesis
    by (simp add: markBookmarksRead_heap_def markBookmarksRead_def m Let_def split_beta comp_def
        split: prod.split option.split)
qed

end
